theory Spec2Isabelle
  imports Complex_Main "HOL-Library.Sublist"
begin

section \<open>Carbontrackpro: the GHG Protocol scope calculator\<close>

text \<open>
  This theory embeds \<^verbatim>\<open>emission_factors.py\<close>, \<^verbatim>\<open>ghg_protocol.py\<close> and the
  aggregation block of \<^verbatim>\<open>app.py\<close> (the body of \<^verbatim>\<open>if calculate_button:\<close>).

  Conventions of the embedding:
  \<^item> Python numbers (\<^verbatim>\<open>int\<close> and \<^verbatim>\<open>float\<close>) are values of type \<^typ>\<open>real\<close>: arithmetic
    is exact, the rounding of IEEE doubles is not part of the model. A decimal literal such
    as \<open>0.00195\<close> denotes the fraction \<open>195 / 10 ^ 5\<close>.
  \<^item> Python strings are values of type \<^typ>\<open>string\<close>; \<^verbatim>\<open>str.lower\<close> maps the letters
    \<open>A\<close> to \<open>Z\<close> to lower case and leaves every other character as it is.
  \<^item> A dictionary is an association list read with \<^const>\<open>map_of\<close>; the empty dictionary
    is the empty list, \<^verbatim>\<open>None\<close> is \<^const>\<open>None\<close>.
  \<^item> A raised exception is the left summand of the result type.
\<close>

subsection \<open>Python primitives\<close>

datatype py_error = KeyError string

type_synonym 'a dict = "(string \<times> 'a) list"

text \<open>\<^verbatim>\<open>d[k]\<close>: raises \<^verbatim>\<open>KeyError\<close> when the key is missing.\<close>

definition dict_subscript :: "'a dict \<Rightarrow> string \<Rightarrow> py_error + 'a" where
  "dict_subscript d k = (case map_of d k of None \<Rightarrow> Inl (KeyError k) | Some v \<Rightarrow> Inr v)"

text \<open>\<^verbatim>\<open>d.get(k, default)\<close>: never raises.\<close>

definition dict_get :: "'a dict \<Rightarrow> string \<Rightarrow> 'a \<Rightarrow> 'a" where
  "dict_get d k dflt = (case map_of d k of None \<Rightarrow> dflt | Some v \<Rightarrow> v)"

text \<open>Sequencing of computations that may raise: the first exception is propagated.\<close>

definition py_bind :: "py_error + 'a \<Rightarrow> ('a \<Rightarrow> py_error + 'b) \<Rightarrow> py_error + 'b" where
  "py_bind m f = (case m of Inl e \<Rightarrow> Inl e | Inr v \<Rightarrow> f v)"

text \<open>\<^verbatim>\<open>str.lower\<close> on the letters \<open>A\<close> .. \<open>Z\<close> (character codes 65 .. 90).\<close>

definition lower_char :: "char \<Rightarrow> char" where
  "lower_char c =
     (let n = (of_char c :: nat) in if 65 \<le> n \<and> n \<le> 90 then char_of (n + 32) else c)"

definition lower :: "string \<Rightarrow> string" where
  "lower s = map lower_char s"

text \<open>
  \<^verbatim>\<open>s.replace(old, new)\<close>: the occurrences of \<open>old\<close> are found from the left and do not
  overlap. With an empty \<open>old\<close>, Python puts \<open>new\<close> before every character and at the end.
\<close>

fun replace_from :: "string \<Rightarrow> string \<Rightarrow> string \<Rightarrow> string" where
  "replace_from old new [] = []"
| "replace_from old new (c # cs) =
     (if prefix old (c # cs) then new @ replace_from old new (drop (length old - 1) cs)
      else c # replace_from old new cs)"

definition replace :: "string \<Rightarrow> string \<Rightarrow> string \<Rightarrow> string" where
  "replace s old new =
     (if old = [] then new @ concat (map (\<lambda>c. c # new) s) else replace_from old new s)"

subsection \<open>\<^verbatim>\<open>emission_factors.py\<close>\<close>

definition STATIONARY_COMBUSTION :: "real dict" where
  "STATIONARY_COMBUSTION =
     [(''natural_gas'', 0.00195),
      (''diesel'', 0.00273),
      (''propane'', 0.00153),
      (''fuel_oil'', 0.00281)]"

definition MOBILE_COMBUSTION :: "real dict" where
  "MOBILE_COMBUSTION =
     [(''gasoline'', 0.00234),
      (''diesel'', 0.00267),
      (''jet_fuel'', 0.00259)]"

definition REFRIGERANTS :: "real dict" where
  "REFRIGERANTS =
     [(''R-134a'', 1430),
      (''R-410A'', 2088),
      (''R-404A'', 3922),
      (''R-22'', 1810),
      (''None'', 0)]"

definition ELECTRICITY :: "real dict" where
  "ELECTRICITY =
     [(''northeast_us'', 0.000254),
      (''midwest_us'', 0.000481),
      (''south_us'', 0.000427),
      (''west_us'', 0.000221),
      (''western_europe'', 0.000276),
      (''eastern_europe'', 0.000483),
      (''asia'', 0.000562),
      (''renewable'', 0.000016),
      (''mixed'', 0.000320),
      (''default'', 0.000431)]"


definition COMMUTING :: "real dict" where
  "COMMUTING =
     [(''car'', 0.000348),
      (''carpool'', 0.000162),
      (''public_transit'', 0.000096),
      (''walking_biking'', 0),
      (''wfh'', 0.000032)]"


definition PURCHASED_GOODS :: "real dict" where
  "PURCHASED_GOODS =
     [(''manufacturing'', 563),
      (''technology'', 386),
      (''retail'', 274),
      (''healthcare'', 221),
      (''education'', 176),
      (''financial_services'', 143),
      (''food_beverage'', 498),
      (''default'', 412)]"

subsection \<open>\<^verbatim>\<open>ghg_protocol.py\<close>\<close>

definition calculate_stationary_combustion ::
  "real \<Rightarrow> real \<Rightarrow> real \<Rightarrow> real \<Rightarrow> py_error + real" where
  "calculate_stationary_combustion natural_gas diesel propane fuel_oil =
     py_bind (dict_subscript STATIONARY_COMBUSTION ''natural_gas'') (\<lambda>f_natural_gas.
     py_bind (dict_subscript STATIONARY_COMBUSTION ''diesel'') (\<lambda>f_diesel.
     py_bind (dict_subscript STATIONARY_COMBUSTION ''propane'') (\<lambda>f_propane.
     py_bind (dict_subscript STATIONARY_COMBUSTION ''fuel_oil'') (\<lambda>f_fuel_oil.
       let natural_gas_emissions = natural_gas * f_natural_gas;
           diesel_emissions = diesel * f_diesel;
           propane_emissions = propane * f_propane;
           fuel_oil_emissions = fuel_oil * f_fuel_oil;
           total_emissions =
             natural_gas_emissions + diesel_emissions + propane_emissions + fuel_oil_emissions
       in Inr total_emissions))))"

definition calculate_mobile_combustion :: "real \<Rightarrow> real \<Rightarrow> real \<Rightarrow> py_error + real" where
  "calculate_mobile_combustion gasoline diesel jet_fuel =
     py_bind (dict_subscript MOBILE_COMBUSTION ''gasoline'') (\<lambda>f_gasoline.
     py_bind (dict_subscript MOBILE_COMBUSTION ''diesel'') (\<lambda>f_diesel.
     py_bind (dict_subscript MOBILE_COMBUSTION ''jet_fuel'') (\<lambda>f_jet_fuel.
       let gasoline_emissions = gasoline * f_gasoline;
           diesel_emissions = diesel * f_diesel;
           jet_fuel_emissions = jet_fuel * f_jet_fuel;
           total_emissions = gasoline_emissions + diesel_emissions + jet_fuel_emissions
       in Inr total_emissions)))"

definition calculate_refrigerant_emissions :: "string \<Rightarrow> real \<Rightarrow> py_error + real" where
  "calculate_refrigerant_emissions refrigerant_type amount =
     (if refrigerant_type = ''None'' \<or> amount = 0 then Inr 0
      else
        let emissions = amount * dict_get REFRIGERANTS refrigerant_type 0 / 1000
        in Inr emissions)"

definition calculate_electricity_emissions ::
  "real \<Rightarrow> string \<Rightarrow> string \<Rightarrow> py_error + real" where
  "calculate_electricity_emissions electricity grid_region electricity_source =
     py_bind
       (if electricity_source = ''Renewable Energy'' then
          dict_subscript ELECTRICITY ''renewable''
        else if electricity_source = ''Mixed Sources'' then
          dict_subscript ELECTRICITY ''mixed''
        else
          py_bind (dict_subscript ELECTRICITY ''default'') (\<lambda>dflt.
            Inr (dict_get ELECTRICITY (replace (lower grid_region) '' '' ''_'') dflt)))
       (\<lambda>emissions_factor.
          let emissions = electricity * emissions_factor / 1000
          in Inr emissions)"


text \<open>The local dictionary \<^verbatim>\<open>mode_mapping\<close> of \<^verbatim>\<open>calculate_employee_commuting_emissions\<close>.\<close>

definition mode_mapping :: "string dict" where
  "mode_mapping =
     [(''Car (Single Occupancy)'', ''car''),
      (''Carpool'', ''carpool''),
      (''Public Transit'', ''public_transit''),
      (''Walking/Biking'', ''walking_biking''),
      (''Work from Home'', ''wfh'')]"

text \<open>
  The truth value of \<^verbatim>\<open>mode_breakdown\<close> in \<^verbatim>\<open>commute_mode == "Mixed" and mode_breakdown\<close>:
  \<^verbatim>\<open>None\<close> and the empty dictionary are false, every other dictionary is true.
\<close>

definition truthy :: "'a dict option \<Rightarrow> bool" where
  "truthy mode_breakdown = (case mode_breakdown of None \<Rightarrow> False | Some d \<Rightarrow> d \<noteq> [])"

text \<open>The entries of a dictionary that may be \<^verbatim>\<open>None\<close> (read only where it is true).\<close>

definition entries :: "'a dict option \<Rightarrow> 'a dict" where
  "entries mode_breakdown = (case mode_breakdown of None \<Rightarrow> [] | Some d \<Rightarrow> d)"

definition calculate_employee_commuting_emissions ::
  "real \<Rightarrow> real \<Rightarrow> real \<Rightarrow> string \<Rightarrow> real dict option \<Rightarrow> py_error + real" where
  "calculate_employee_commuting_emissions avg_commute_distance num_employees
       commute_days_per_year commute_mode mode_breakdown =
     (let total_annual_miles =
            avg_commute_distance * 2 * num_employees * commute_days_per_year
      in
        if commute_mode = ''Mixed'' \<and> truthy mode_breakdown then
          py_bind (dict_subscript (entries mode_breakdown) ''car'') (\<lambda>p_car.
          py_bind (dict_subscript COMMUTING ''car'') (\<lambda>f_car.
          py_bind (dict_subscript (entries mode_breakdown) ''carpool'') (\<lambda>p_carpool.
          py_bind (dict_subscript COMMUTING ''carpool'') (\<lambda>f_carpool.
          py_bind (dict_subscript (entries mode_breakdown) ''public_transit'') (\<lambda>p_transit.
          py_bind (dict_subscript COMMUTING ''public_transit'') (\<lambda>f_transit.
          py_bind (dict_subscript (entries mode_breakdown) ''walking_biking'') (\<lambda>p_walking_biking.
          py_bind (dict_subscript COMMUTING ''walking_biking'') (\<lambda>f_walking_biking.
          py_bind (dict_subscript (entries mode_breakdown) ''wfh'') (\<lambda>p_wfh.
          py_bind (dict_subscript COMMUTING ''wfh'') (\<lambda>f_wfh.
            let car_emissions = total_annual_miles * p_car * f_car;
                carpool_emissions = total_annual_miles * p_carpool * f_carpool;
                transit_emissions = total_annual_miles * p_transit * f_transit;
                walking_biking_emissions = total_annual_miles * p_walking_biking * f_walking_biking;
                wfh_emissions = total_annual_miles * p_wfh * f_wfh;
                total_emissions =
                  car_emissions + carpool_emissions + transit_emissions +
                  walking_biking_emissions + wfh_emissions
            in Inr total_emissions))))))))))
        else
          py_bind (dict_subscript COMMUTING (dict_get mode_mapping commute_mode ''car''))
            (\<lambda>emission_factor.
               let total_emissions = total_annual_miles * emission_factor
               in Inr total_emissions))"


definition calculate_purchased_goods_emissions :: "real \<Rightarrow> string \<Rightarrow> py_error + real" where
  "calculate_purchased_goods_emissions purchased_goods industry =
     py_bind (dict_subscript PURCHASED_GOODS ''default'') (\<lambda>dflt.
       let industry_factor =
             dict_get PURCHASED_GOODS
               (replace (replace (lower industry) '' & '' ''_'') '' '' ''_'') dflt;
           emissions = purchased_goods / 1000000 * industry_factor
       in Inr emissions)"

subsection \<open>\<^verbatim>\<open>app.py\<close>: the aggregation step\<close>

text \<open>The values of the input form that the calculation reads.\<close>

record ActivityInput =
  natural_gas :: real
  diesel :: real
  propane :: real
  fuel_oil :: real
  gasoline :: real
  diesel_vehicles :: real
  jet_fuel :: real
  refrigerant_type :: string
  refrigerant_amount :: real
  electricity :: real
  grid_region :: string
  electricity_source :: string
  air_travel_short :: real
  air_travel_medium :: real
  air_travel_long :: real
  car_rental :: real
  hotel_stays :: real
  avg_commute_distance :: real
  num_employees :: real
  commute_days_per_year :: real
  commute_mode :: string
  car_percent :: real
  carpool_percent :: real
  public_transit_percent :: real
  walking_biking_percent :: real
  wfh_percent :: real
  landfill_waste :: real
  recycled_waste :: real
  composted_waste :: real
  incinerated_waste :: real
  purchased_goods :: real
  industry :: string

text \<open>
  What the step stores in the session state: \<^verbatim>\<open>total_emissions\<close>,
  \<^verbatim>\<open>emissions_by_scope\<close> and \<^verbatim>\<open>emissions_by_category\<close>.
\<close>

record EmissionsResult =
  total_emissions :: real
  emissions_by_scope :: "real dict"
  emissions_by_category :: "real dict"






subsection \<open>Well-formed arguments\<close>

text \<open>
  The five keys that the weighted branch of \<^verbatim>\<open>calculate_employee_commuting_emissions\<close>
  reads from \<^verbatim>\<open>mode_breakdown\<close>.
\<close>

definition mode_keys :: "string list" where
  "mode_keys = [''car'', ''carpool'', ''public_transit'', ''walking_biking'', ''wfh'']"

text \<open>
  A breakdown is complete when it is \<^verbatim>\<open>None\<close>, empty, or has a value for each of the
  five keys; it is non-negative when none of its values is negative.
\<close>

definition complete_breakdown :: "real dict option \<Rightarrow> bool" where
  "complete_breakdown mb \<longleftrightarrow>
     (truthy mb \<longrightarrow> list_all (\<lambda>k. map_of (entries mb) k \<noteq> None) mode_keys)"


section \<open>Properties\<close>

subsection \<open>Evaluating the factor tables\<close>

lemma py_bind_Inr: "py_bind (Inr v) f = f v"
  by (simp add: py_bind_def)

lemma py_bind_Inl: "py_bind (Inl e) f = Inl e"
  by (simp add: py_bind_def)

lemma STATIONARY_COMBUSTION_subscript:
  "dict_subscript STATIONARY_COMBUSTION ''natural_gas'' = Inr 0.00195"
  "dict_subscript STATIONARY_COMBUSTION ''diesel'' = Inr 0.00273"
  "dict_subscript STATIONARY_COMBUSTION ''propane'' = Inr 0.00153"
  "dict_subscript STATIONARY_COMBUSTION ''fuel_oil'' = Inr 0.00281"
  by (simp_all add: dict_subscript_def STATIONARY_COMBUSTION_def)

lemma MOBILE_COMBUSTION_subscript:
  "dict_subscript MOBILE_COMBUSTION ''gasoline'' = Inr 0.00234"
  "dict_subscript MOBILE_COMBUSTION ''diesel'' = Inr 0.00267"
  "dict_subscript MOBILE_COMBUSTION ''jet_fuel'' = Inr 0.00259"
  by (simp_all add: dict_subscript_def MOBILE_COMBUSTION_def)

lemma calculate_stationary_combustion_eq:
  "calculate_stationary_combustion ng d p fo =
     Inr (ng * 0.00195 + d * 0.00273 + p * 0.00153 + fo * 0.00281)"
  by (simp add: calculate_stationary_combustion_def STATIONARY_COMBUSTION_subscript py_bind_Inr)

lemma calculate_mobile_combustion_eq:
  "calculate_mobile_combustion g d j = Inr (g * 0.00234 + d * 0.00267 + j * 0.00259)"
  by (simp add: calculate_mobile_combustion_def MOBILE_COMBUSTION_subscript py_bind_Inr)


lemma COMMUTING_subscript:
  "dict_subscript COMMUTING ''car'' = Inr 0.000348"
  "dict_subscript COMMUTING ''carpool'' = Inr 0.000162"
  "dict_subscript COMMUTING ''public_transit'' = Inr 0.000096"
  "dict_subscript COMMUTING ''walking_biking'' = Inr 0"
  "dict_subscript COMMUTING ''wfh'' = Inr 0.000032"
  by (simp_all add: dict_subscript_def COMMUTING_def)


lemma ELECTRICITY_subscript:
  "dict_subscript ELECTRICITY ''renewable'' = Inr 0.000016"
  "dict_subscript ELECTRICITY ''mixed'' = Inr 0.000320"
  "dict_subscript ELECTRICITY ''default'' = Inr 0.000431"
  by (simp_all add: dict_subscript_def ELECTRICITY_def)

lemma PURCHASED_GOODS_subscript:
  "dict_subscript PURCHASED_GOODS ''default'' = Inr 412"
  by (simp add: dict_subscript_def PURCHASED_GOODS_def)






lemma calculate_refrigerant_emissions_eq:
  "calculate_refrigerant_emissions t a = Inr (a * dict_get REFRIGERANTS t 0 / 1000)"
  by (simp add: calculate_refrigerant_emissions_def dict_get_def REFRIGERANTS_def)

lemma calculate_electricity_emissions_renewable:
  "calculate_electricity_emissions kwh region ''Renewable Energy'' = Inr (kwh * 0.000016 / 1000)"
  by (simp add: calculate_electricity_emissions_def ELECTRICITY_subscript py_bind_Inr)

lemma calculate_electricity_emissions_mixed:
  "calculate_electricity_emissions kwh region ''Mixed Sources'' = Inr (kwh * 0.000320 / 1000)"
  by (simp add: calculate_electricity_emissions_def ELECTRICITY_subscript py_bind_Inr)

lemma calculate_electricity_emissions_grid:
  "source \<noteq> ''Renewable Energy'' \<Longrightarrow> source \<noteq> ''Mixed Sources'' \<Longrightarrow>
   calculate_electricity_emissions kwh region source =
     Inr (kwh * dict_get ELECTRICITY (replace (lower region) '' '' ''_'') 0.000431 / 1000)"
  by (simp add: calculate_electricity_emissions_def ELECTRICITY_subscript py_bind_Inr)

lemma calculate_purchased_goods_emissions_eq:
  "calculate_purchased_goods_emissions spend ind =
     Inr (spend / 1000000 *
          dict_get PURCHASED_GOODS (replace (replace (lower ind) '' & '' ''_'') '' '' ''_'') 412)"
  by (simp add: calculate_purchased_goods_emissions_def PURCHASED_GOODS_subscript py_bind_Inr)

lemma single_mode_factor:
  "dict_subscript COMMUTING (dict_get mode_mapping m ''car'') =
     Inr (if m = ''Carpool'' then 0.000162
          else if m = ''Public Transit'' then 0.000096
          else if m = ''Walking/Biking'' then 0
          else if m = ''Work from Home'' then 0.000032
          else 0.000348)"
  by (simp add: dict_get_def mode_mapping_def COMMUTING_subscript)

lemma single_mode_fallback:
  "map_of mode_mapping m = None \<Longrightarrow>
   dict_subscript COMMUTING (dict_get mode_mapping m ''car'') = Inr 0.000348"
  by (simp add: dict_get_def COMMUTING_subscript)

lemma calculate_employee_commuting_emissions_single:
  "\<not> (m = ''Mixed'' \<and> truthy mb) \<Longrightarrow>
   calculate_employee_commuting_emissions d n days m mb =
     py_bind (dict_subscript COMMUTING (dict_get mode_mapping m ''car''))
       (\<lambda>f. Inr (d * 2 * n * days * f))"
  unfolding calculate_employee_commuting_emissions_def Let_def
  by (simp only: if_False)

lemma calculate_employee_commuting_emissions_weighted:
  assumes "map_of d ''car'' = Some p_car"
    and "map_of d ''carpool'' = Some p_carpool"
    and "map_of d ''public_transit'' = Some p_transit"
    and "map_of d ''walking_biking'' = Some p_walking"
    and "map_of d ''wfh'' = Some p_wfh"
  shows "calculate_employee_commuting_emissions dst n days ''Mixed'' (Some d) =
     Inr (dst * 2 * n * days * p_car * 0.000348 +
          dst * 2 * n * days * p_carpool * 0.000162 +
          dst * 2 * n * days * p_transit * 0.000096 +
          dst * 2 * n * days * p_walking * 0 +
          dst * 2 * n * days * p_wfh * 0.000032)"
proof -
  have "d \<noteq> []"
    using assms(1) by auto
  then have t: "truthy (Some d)"
    by (simp add: truthy_def)
  have e: "entries (Some d) = d"
    by (simp add: entries_def)
  have s: "dict_subscript d ''car'' = Inr p_car"
    "dict_subscript d ''carpool'' = Inr p_carpool"
    "dict_subscript d ''public_transit'' = Inr p_transit"
    "dict_subscript d ''walking_biking'' = Inr p_walking"
    "dict_subscript d ''wfh'' = Inr p_wfh"
    using assms by (simp_all add: dict_subscript_def)
  show ?thesis
    unfolding calculate_employee_commuting_emissions_def
    by (simp only: t e s COMMUTING_subscript py_bind_Inr Let_def simp_thms if_True)
qed

text \<open>
  The weighted branch reads all five keys: a non-empty breakdown without one of them makes
  \<^verbatim>\<open>mode_breakdown[...]\<close> raise.
\<close>

lemma incomplete_breakdown_raises:
  "calculate_employee_commuting_emissions 10 100 230 ''Mixed'' (Some [(''car'', 1)]) =
     Inl (KeyError ''carpool'')"
  by (simp add: calculate_employee_commuting_emissions_def truthy_def entries_def
      dict_subscript_def COMMUTING_def py_bind_def)

subsection \<open>Every calculator returns a non-negative value\<close>

lemma complete_breakdownD:
  assumes "complete_breakdown (Some d)" and "d \<noteq> []"
  shows "\<exists>p_car p_carpool p_transit p_walking p_wfh.
           map_of d ''car'' = Some p_car \<and> map_of d ''carpool'' = Some p_carpool \<and>
           map_of d ''public_transit'' = Some p_transit \<and>
           map_of d ''walking_biking'' = Some p_walking \<and> map_of d ''wfh'' = Some p_wfh"
  using assms by (auto simp: complete_breakdown_def truthy_def entries_def mode_keys_def)












subsection \<open>Normalised selector keys\<close>

lemma region_keys:
  "replace (lower ''Northeast US'') '' '' ''_'' = ''northeast_us''"
  "replace (lower ''Unknown Region'') '' '' ''_'' = ''unknown_region''"
  "replace (lower ''Midwest US'') '' '' ''_'' = ''midwest_us''"
  "replace (lower ''Asia'') '' '' ''_'' = ''asia''"
  "replace (lower ''Other'') '' '' ''_'' = ''other''"
  "replace (lower ''Mars'') '' '' ''_'' = ''mars''"
  by code_simp+

lemma industry_keys:
  "replace (replace (lower ''Aerospace'') '' & '' ''_'') '' '' ''_'' = ''aerospace''"
  "replace (replace (lower ''Food & Beverage'') '' & '' ''_'') '' '' ''_'' = ''food_beverage''"
  "replace (replace (lower ''Financial Services'') '' & '' ''_'') '' '' ''_'' = ''financial_services''"
  by code_simp+

subsection \<open>Non-negative results\<close>



subsection \<open>Electricity: the choice of the factor\<close>

text \<open>
  Claim C3, as amended. The two source labels that select a source-level factor are
  \<open>Renewable Energy\<close> (factor 0.000016) and \<open>Mixed Sources\<close> (factor 0.000320); for each the
  result is the consumption times that factor divided by 1000, whatever the region. For every
  other source the key derived from the region (lower case, blanks replaced by underscores)
  is looked up in \<^verbatim>\<open>ELECTRICITY\<close>, and the default factor 0.000431 is used when the key is
  absent.
\<close>

theorem electricity_factor_selection:
  "calculate_electricity_emissions kwh region ''Renewable Energy'' =
     Inr (kwh * 0.000016 / 1000) \<and>
   calculate_electricity_emissions kwh region ''Mixed Sources'' =
     Inr (kwh * 0.000320 / 1000) \<and>
   (source \<noteq> ''Renewable Energy'' \<and> source \<noteq> ''Mixed Sources'' \<longrightarrow>
    calculate_electricity_emissions kwh region source =
      Inr (kwh * (case map_of ELECTRICITY (replace (lower region) '' '' ''_'') of
                    None \<Rightarrow> 0.000431 | Some f \<Rightarrow> f) / 1000))"
proof (intro conjI impI)
  show "calculate_electricity_emissions kwh region ''Renewable Energy'' =
     Inr (kwh * 0.000016 / 1000)"
    by (rule calculate_electricity_emissions_renewable)
  show "calculate_electricity_emissions kwh region ''Mixed Sources'' =
     Inr (kwh * 0.000320 / 1000)"
    by (rule calculate_electricity_emissions_mixed)
next
  assume "source \<noteq> ''Renewable Energy'' \<and> source \<noteq> ''Mixed Sources''"
  then have other: "source \<noteq> ''Renewable Energy''" "source \<noteq> ''Mixed Sources''"
    by blast+
  show "calculate_electricity_emissions kwh region source =
      Inr (kwh * (case map_of ELECTRICITY (replace (lower region) '' '' ''_'') of
                    None \<Rightarrow> 0.000431 | Some f \<Rightarrow> f) / 1000)"
    unfolding calculate_electricity_emissions_grid [OF other] dict_get_def
    by (rule refl)
qed

theorem electricity_factor_selection_witness:
  "''Grid Electricity'' \<noteq> ''Renewable Energy'' \<and> ''Grid Electricity'' \<noteq> ''Mixed Sources'' \<and>
   calculate_electricity_emissions 2000 ''Midwest US'' ''Grid Electricity'' =
     Inr (2000 * 0.000481 / 1000)"
  using electricity_factor_selection [of 2000 "''Midwest US''" "''Grid Electricity''"]
  by (simp add: region_keys ELECTRICITY_def)

text \<open>
  The source strings \<open>renewable\<close> and \<open>mixed\<close> themselves are not among the labels that the
  function tests: with them the region factor is used (here the one of \<open>Asia\<close>).
\<close>

theorem electricity_source_key_counterexample:
  "calculate_electricity_emissions 1000 ''Asia'' ''renewable'' = Inr (1000 * 0.000562 / 1000) \<and>
   calculate_electricity_emissions 1000 ''Asia'' ''renewable'' \<noteq> Inr (1000 * 0.000016 / 1000) \<and>
   calculate_electricity_emissions 1000 ''Asia'' ''mixed'' = Inr (1000 * 0.000562 / 1000) \<and>
   calculate_electricity_emissions 1000 ''Asia'' ''mixed'' \<noteq> Inr (1000 * 0.000320 / 1000)"
  by (simp add: calculate_electricity_emissions_grid region_keys dict_get_def ELECTRICITY_def)

subsection \<open>Refrigerants\<close>

text \<open>
  Claim C4. \<^verbatim>\<open>calculate_refrigerant_emissions\<close> returns the amount times the global-warming
  potential of the refrigerant type divided by 1000, where a type that is not in the table
  has potential 0. It returns 0 for the types \<open>None\<close> and \<open>none\<close> and for the amount 0; in
  particular at \<open>(none, 100)\<close> and at \<open>(R-134a, 0)\<close>.
\<close>

theorem refrigerant_emissions_gwp:
  "calculate_refrigerant_emissions rtype amount =
     Inr (amount * dict_get REFRIGERANTS rtype 0 / 1000) \<and>
   calculate_refrigerant_emissions ''R-134a'' amount = Inr (amount * 1430 / 1000) \<and>
   calculate_refrigerant_emissions ''R-410A'' amount = Inr (amount * 2088 / 1000) \<and>
   calculate_refrigerant_emissions ''R-404A'' amount = Inr (amount * 3922 / 1000) \<and>
   calculate_refrigerant_emissions ''R-22'' amount = Inr (amount * 1810 / 1000) \<and>
   calculate_refrigerant_emissions ''None'' amount = Inr 0 \<and>
   calculate_refrigerant_emissions ''none'' amount = Inr 0 \<and>
   calculate_refrigerant_emissions rtype 0 = Inr 0 \<and>
   calculate_refrigerant_emissions ''none'' 100 = Inr 0 \<and>
   calculate_refrigerant_emissions ''R-134a'' 0 = Inr 0"
proof (intro conjI)
  show "calculate_refrigerant_emissions rtype amount =
     Inr (amount * dict_get REFRIGERANTS rtype 0 / 1000)"
    by (rule calculate_refrigerant_emissions_eq)
qed (simp_all add: calculate_refrigerant_emissions_eq dict_get_def REFRIGERANTS_def)

subsection \<open>Grid electricity\<close>



subsection \<open>Commuting\<close>

text \<open>
  Claim C6. The annual round-trip mileage is distance times 2 times employees times days,
  and for each of the five single modes the result is that mileage times the factor of the
  mode, whatever the breakdown; in particular 10 miles, 100 employees and 230 days by
  \<open>Car (Single Occupancy)\<close> give \<open>10 * 2 * 100 * 230 * 0.000348\<close> tonnes.
\<close>

theorem single_mode_commuting:
  "calculate_employee_commuting_emissions d n days ''Car (Single Occupancy)'' mb =
     Inr (d * 2 * n * days * 0.000348) \<and>
   calculate_employee_commuting_emissions d n days ''Carpool'' mb =
     Inr (d * 2 * n * days * 0.000162) \<and>
   calculate_employee_commuting_emissions d n days ''Public Transit'' mb =
     Inr (d * 2 * n * days * 0.000096) \<and>
   calculate_employee_commuting_emissions d n days ''Walking/Biking'' mb =
     Inr (d * 2 * n * days * 0) \<and>
   calculate_employee_commuting_emissions d n days ''Work from Home'' mb =
     Inr (d * 2 * n * days * 0.000032) \<and>
   calculate_employee_commuting_emissions 10 100 230 ''Car (Single Occupancy)'' None =
     Inr (10 * 2 * 100 * 230 * 0.000348)"
  by (simp add: calculate_employee_commuting_emissions_single single_mode_factor py_bind_Inr)

text \<open>
  Claim C7. In mode \<open>Mixed\<close>, with a breakdown that has a fraction for each of the five modes
  and whose fractions sum to 1 (that is 100%), the result is the sum over the five modes of
  the mileage share of the mode (annual mileage times its fraction) times the factor of the
  mode; and the five mileage shares add up to the annual mileage.
\<close>

theorem mixed_mode_commuting:
  "map_of bd ''car'' = Some p_car \<Longrightarrow>
   map_of bd ''carpool'' = Some p_carpool \<Longrightarrow>
   map_of bd ''public_transit'' = Some p_transit \<Longrightarrow>
   map_of bd ''walking_biking'' = Some p_walking \<Longrightarrow>
   map_of bd ''wfh'' = Some p_wfh \<Longrightarrow>
   p_car + p_carpool + p_transit + p_walking + p_wfh = 1 \<Longrightarrow>
   (let total_annual_miles = dst * 2 * emp * days;
        car_miles = total_annual_miles * p_car;
        carpool_miles = total_annual_miles * p_carpool;
        transit_miles = total_annual_miles * p_transit;
        walking_miles = total_annual_miles * p_walking;
        wfh_miles = total_annual_miles * p_wfh
    in calculate_employee_commuting_emissions dst emp days ''Mixed'' (Some bd) =
         Inr (car_miles * 0.000348 + carpool_miles * 0.000162 + transit_miles * 0.000096 +
              walking_miles * 0 + wfh_miles * 0.000032) \<and>
       car_miles + carpool_miles + transit_miles + walking_miles + wfh_miles =
         total_annual_miles)"
proof -
  assume p: "map_of bd ''car'' = Some p_car" "map_of bd ''carpool'' = Some p_carpool"
    "map_of bd ''public_transit'' = Some p_transit"
    "map_of bd ''walking_biking'' = Some p_walking" "map_of bd ''wfh'' = Some p_wfh"
  assume total: "p_car + p_carpool + p_transit + p_walking + p_wfh = 1"
  have "dst * 2 * emp * days * p_car + dst * 2 * emp * days * p_carpool +
        dst * 2 * emp * days * p_transit + dst * 2 * emp * days * p_walking +
        dst * 2 * emp * days * p_wfh =
        dst * 2 * emp * days * (p_car + p_carpool + p_transit + p_walking + p_wfh)"
    by (simp only: distrib_left)
  then have shares: "dst * 2 * emp * days * p_car + dst * 2 * emp * days * p_carpool +
        dst * 2 * emp * days * p_transit + dst * 2 * emp * days * p_walking +
        dst * 2 * emp * days * p_wfh = dst * 2 * emp * days"
    by (simp only: total mult_1_right)
  show ?thesis
    unfolding Let_def calculate_employee_commuting_emissions_weighted [OF p]
    using shares by blast
qed

theorem mixed_mode_commuting_witness:
  "calculate_employee_commuting_emissions 10 100 230 ''Mixed''
     (Some [(''car'', 0.3), (''carpool'', 0.2), (''public_transit'', 0.3),
            (''walking_biking'', 0.1), (''wfh'', 0.1)]) =
   Inr (10 * 2 * 100 * 230 * 0.3 * 0.000348 + 10 * 2 * 100 * 230 * 0.2 * 0.000162 +
        10 * 2 * 100 * 230 * 0.3 * 0.000096 + 10 * 2 * 100 * 230 * 0.1 * 0 +
        10 * 2 * 100 * 230 * 0.1 * 0.000032)"
  using mixed_mode_commuting [of "[(''car'', 0.3), (''carpool'', 0.2), (''public_transit'', 0.3),
            (''walking_biking'', 0.1), (''wfh'', 0.1)]" "0.3" "0.2" "0.3" "0.1" "0.1" 10 100 230]
  by (simp add: Let_def)




subsection \<open>Selectors outside the tables\<close>

text \<open>
  Claim C8. For every grid region, industry, refrigerant type and commute mode the
  calculator returns a value and raises nothing (the commuting calculator with a complete
  breakdown). A selector whose key is not in the table falls back to a default: the factor
  0.000431 for a region, the intensity 412 per million USD for an industry, the potential 0
  for a refrigerant, and the car factor for a commute mode.
\<close>

theorem selector_fallback:
  "(\<exists>v. calculate_electricity_emissions kwh region source = Inr v) \<and>
   (\<exists>v. calculate_purchased_goods_emissions spend ind = Inr v) \<and>
   (\<exists>v. calculate_refrigerant_emissions rtype amount = Inr v) \<and>
   (complete_breakdown mb \<longrightarrow>
      (\<exists>v. calculate_employee_commuting_emissions dst emp days mode mb = Inr v)) \<and>
   (source \<noteq> ''Renewable Energy'' \<and> source \<noteq> ''Mixed Sources'' \<and>
    map_of ELECTRICITY (replace (lower region) '' '' ''_'') = None \<longrightarrow>
      calculate_electricity_emissions kwh region source = Inr (kwh * 0.000431 / 1000)) \<and>
   (map_of PURCHASED_GOODS (replace (replace (lower ind) '' & '' ''_'') '' '' ''_'') = None \<longrightarrow>
      calculate_purchased_goods_emissions spend ind = Inr (spend / 1000000 * 412)) \<and>
   (map_of REFRIGERANTS rtype = None \<longrightarrow>
      calculate_refrigerant_emissions rtype amount = Inr 0) \<and>
   (map_of mode_mapping mode = None \<and> \<not> (mode = ''Mixed'' \<and> truthy mb) \<longrightarrow>
      calculate_employee_commuting_emissions dst emp days mode mb =
        Inr (dst * 2 * emp * days * 0.000348))"
proof (intro conjI impI)
  show "\<exists>v. calculate_electricity_emissions kwh region source = Inr v"
  proof (cases "source = ''Renewable Energy'' \<or> source = ''Mixed Sources''")
    case True
    then show ?thesis
    proof
      assume "source = ''Renewable Energy''"
      then show ?thesis
        by (simp only: calculate_electricity_emissions_renewable) (rule exI, rule refl)
    next
      assume "source = ''Mixed Sources''"
      then show ?thesis
        by (simp only: calculate_electricity_emissions_mixed) (rule exI, rule refl)
    qed
  next
    case False
    then have other: "source \<noteq> ''Renewable Energy''" "source \<noteq> ''Mixed Sources''"
      by blast+
    show ?thesis
      unfolding calculate_electricity_emissions_grid [OF other] by (rule exI) (rule refl)
  qed
next
  show "\<exists>v. calculate_purchased_goods_emissions spend ind = Inr v"
    unfolding calculate_purchased_goods_emissions_eq by (rule exI) (rule refl)
next
  show "\<exists>v. calculate_refrigerant_emissions rtype amount = Inr v"
    unfolding calculate_refrigerant_emissions_eq by (rule exI) (rule refl)
next
  assume c: "complete_breakdown mb"
  show "\<exists>v. calculate_employee_commuting_emissions dst emp days mode mb = Inr v"
  proof (cases "mode = ''Mixed'' \<and> truthy mb")
    case True
    then obtain bd where mb: "mb = Some bd" and ne: "bd \<noteq> []"
      by (auto simp: truthy_def split: option.splits)
    from c mb ne obtain p_car p_carpool p_transit p_walking p_wfh where
      p: "map_of bd ''car'' = Some p_car" "map_of bd ''carpool'' = Some p_carpool"
         "map_of bd ''public_transit'' = Some p_transit"
         "map_of bd ''walking_biking'' = Some p_walking" "map_of bd ''wfh'' = Some p_wfh"
      using complete_breakdownD by blast
    show ?thesis
      unfolding mb conjunct1 [OF True] calculate_employee_commuting_emissions_weighted [OF p]
      by (rule exI) (rule refl)
  next
    case False
    show ?thesis
      unfolding calculate_employee_commuting_emissions_single [OF False]
          single_mode_factor py_bind_Inr
      by (rule exI) (rule refl)
  qed
next
  assume "source \<noteq> ''Renewable Energy'' \<and> source \<noteq> ''Mixed Sources'' \<and>
    map_of ELECTRICITY (replace (lower region) '' '' ''_'') = None"
  then show "calculate_electricity_emissions kwh region source = Inr (kwh * 0.000431 / 1000)"
    by (simp add: calculate_electricity_emissions_grid dict_get_def)
next
  assume "map_of PURCHASED_GOODS (replace (replace (lower ind) '' & '' ''_'') '' '' ''_'') = None"
  then show "calculate_purchased_goods_emissions spend ind = Inr (spend / 1000000 * 412)"
    by (simp add: calculate_purchased_goods_emissions_eq dict_get_def)
next
  assume "map_of REFRIGERANTS rtype = None"
  then show "calculate_refrigerant_emissions rtype amount = Inr 0"
    by (simp add: calculate_refrigerant_emissions_eq dict_get_def)
next
  assume a: "map_of mode_mapping mode = None \<and> \<not> (mode = ''Mixed'' \<and> truthy mb)"
  then have k: "map_of mode_mapping mode = None" and f: "\<not> (mode = ''Mixed'' \<and> truthy mb)"
    by blast+
  show "calculate_employee_commuting_emissions dst emp days mode mb =
        Inr (dst * 2 * emp * days * 0.000348)"
    by (simp only: calculate_employee_commuting_emissions_single [OF f]
        single_mode_fallback [OF k] py_bind_Inr)
qed

theorem selector_fallback_witness:
  "complete_breakdown None \<and>
   ''Grid Electricity'' \<noteq> ''Renewable Energy'' \<and> ''Grid Electricity'' \<noteq> ''Mixed Sources'' \<and>
   map_of ELECTRICITY (replace (lower ''Mars'') '' '' ''_'') = None \<and>
   map_of PURCHASED_GOODS (replace (replace (lower ''Aerospace'') '' & '' ''_'') '' '' ''_'') = None \<and>
   map_of REFRIGERANTS ''R-32'' = None \<and>
   map_of mode_mapping ''Helicopter'' = None \<and>
   \<not> (''Helicopter'' = ''Mixed'' \<and> truthy (None :: real dict option)) \<and>
   calculate_electricity_emissions 1000 ''Mars'' ''Grid Electricity'' =
     Inr (1000 * 0.000431 / 1000) \<and>
   calculate_purchased_goods_emissions 2000000 ''Aerospace'' = Inr (2000000 / 1000000 * 412) \<and>
   calculate_refrigerant_emissions ''R-32'' 3 = Inr 0 \<and>
   calculate_employee_commuting_emissions 10 100 230 ''Helicopter'' None =
     Inr (10 * 2 * 100 * 230 * 0.000348)"
proof -
  have h: "complete_breakdown None"
    "''Grid Electricity'' \<noteq> ''Renewable Energy''"
    "''Grid Electricity'' \<noteq> ''Mixed Sources''"
    "map_of ELECTRICITY (replace (lower ''Mars'') '' '' ''_'') = None"
    "map_of PURCHASED_GOODS (replace (replace (lower ''Aerospace'') '' & '' ''_'') '' '' ''_'') = None"
    "map_of REFRIGERANTS ''R-32'' = None"
    "map_of mode_mapping ''Helicopter'' = None"
    "\<not> (''Helicopter'' = ''Mixed'' \<and> truthy (None :: real dict option))"
    by (simp_all add: complete_breakdown_def truthy_def region_keys industry_keys
        ELECTRICITY_def PURCHASED_GOODS_def REFRIGERANTS_def mode_mapping_def)
  note t = selector_fallback [of 1000 "''Mars''" "''Grid Electricity''" 2000000 "''Aerospace''"
        "''R-32''" 3 None 10 100 230 "''Helicopter''"]
  note t5 = t [THEN conjunct2, THEN conjunct2, THEN conjunct2, THEN conjunct2]
  note t6 = t5 [THEN conjunct2]
  note t7 = t6 [THEN conjunct2]
  note t8 = t7 [THEN conjunct2]
  have e: "calculate_electricity_emissions 1000 ''Mars'' ''Grid Electricity'' =
     Inr (1000 * 0.000431 / 1000)"
    "calculate_purchased_goods_emissions 2000000 ''Aerospace'' = Inr (2000000 / 1000000 * 412)"
    "calculate_refrigerant_emissions ''R-32'' 3 = Inr 0"
    "calculate_employee_commuting_emissions 10 100 230 ''Helicopter'' None =
     Inr (10 * 2 * 100 * 230 * 0.000348)"
    using t5 [THEN conjunct1, THEN mp, OF conjI [OF h(2) conjI [OF h(3) h(4)]]]
      t6 [THEN conjunct1, THEN mp, OF h(5)]
      t7 [THEN conjunct1, THEN mp, OF h(6)]
      t8 [THEN mp, OF conjI [OF h(7) h(8)]]
    by - assumption+
  show ?thesis
    by (intro conjI) (rule h e)+
qed

subsection \<open>The aggregation step\<close>




subsection \<open>Zero activity\<close>

text \<open>
  Claim C9. \<^verbatim>\<open>calculate_stationary_combustion(0, 0, 0, 0)\<close> returns 0 and
  \<^verbatim>\<open>calculate_mobile_combustion(0, 0, 0)\<close> returns 0.
\<close>

theorem zero_combustion:
  "calculate_stationary_combustion 0 0 0 0 = Inr 0 \<and> calculate_mobile_combustion 0 0 0 = Inr 0"
  by (simp add: calculate_stationary_combustion_eq calculate_mobile_combustion_eq)

end
